theory Spec2Isabelle
  imports Main
begin

section \<open>Token codec: \<^verbatim>\<open>backend/src/utils/auth.ts\<close>\<close>

text \<open>
  Time is the reading of \<^verbatim>\<open>Date.now()\<close>: milliseconds since the epoch, a natural number.
  The \<^verbatim>\<open>jsonwebtoken\<close> library stamps and compares tokens on a clock of whole seconds,
  \<^verbatim>\<open>Math.floor(Date.now() / 1000)\<close>.
\<close>

type_synonym millis = nat

definition jwt_clock :: "millis \<Rightarrow> nat" where
  "jwt_clock now = now div 1000"

text \<open>
  The payload that \<^verbatim>\<open>jwt.sign({ userId, type }, secret, { expiresIn })\<close> signs: the two
  fields the program supplies and the two timestamps the library adds.
\<close>

record jwt_payload =
  userId :: string
  type :: string
  iat :: nat
  exp :: nat

text \<open>
  A token is a string in the program. The signature is modelled symbolically: a signed
  token is its payload together with the secret that keyed the HMAC, so two signed tokens
  are the same string exactly when payload and secret agree (HS256 is deterministic and
  the header is constant). Every other string is \<open>Opaque\<close>: it does not decode as a JWT.
\<close>

datatype token = Jwt jwt_payload string | Opaque string

datatype jwt_error = JsonWebTokenError | TokenExpiredError

definition jwt_sign :: "string \<Rightarrow> string \<Rightarrow> string \<Rightarrow> nat \<Rightarrow> millis \<Rightarrow> token" where
  "jwt_sign uid ty secret expiresIn now =
     Jwt \<lparr> userId = uid, type = ty, iat = jwt_clock now,
           exp = jwt_clock now + expiresIn \<rparr> secret"

text \<open>
  \<^verbatim>\<open>jwt.verify(token, secret)\<close>: a string that is no JWT and a signature made with another
  secret raise \<^verbatim>\<open>JsonWebTokenError\<close>; then the expiry is checked with
  \<^verbatim>\<open>clockTimestamp >= payload.exp\<close>, without tolerance.
\<close>

fun jwt_verify :: "token \<Rightarrow> string \<Rightarrow> millis \<Rightarrow> jwt_error + jwt_payload" where
  "jwt_verify (Opaque s) secret now = Inl JsonWebTokenError"
| "jwt_verify (Jwt p k) secret now =
     (if k \<noteq> secret then Inl JsonWebTokenError
      else if jwt_clock now \<ge> exp p then Inl TokenExpiredError
      else Inr p)"

text \<open>The two secrets come from the environment, with distinct fallbacks.\<close>

record config =
  JWT_ACCESS_SECRET :: string
  JWT_REFRESH_SECRET :: string

definition fallback_config :: config where
  "fallback_config =
     \<lparr> JWT_ACCESS_SECRET = ''fallback-access-secret'',
       JWT_REFRESH_SECRET = ''fallback-refresh-secret'' \<rparr>"

text \<open>A thrown JavaScript error: its \<^verbatim>\<open>name\<close> and its \<^verbatim>\<open>message\<close>.\<close>

record exn =
  name :: string
  message :: string

definition Error :: "string \<Rightarrow> exn" where
  "Error msg = \<lparr> name = ''Error'', message = msg \<rparr>"

definition generateAccessToken :: "config \<Rightarrow> string \<Rightarrow> millis \<Rightarrow> token" where
  "generateAccessToken cfg uid now =
     jwt_sign uid ''access'' (JWT_ACCESS_SECRET cfg) (15 * 60) now"

definition generateRefreshToken :: "config \<Rightarrow> string \<Rightarrow> millis \<Rightarrow> token" where
  "generateRefreshToken cfg uid now =
     jwt_sign uid ''refresh'' (JWT_REFRESH_SECRET cfg) (7 * 24 * 60 * 60) now"

text \<open>
  Both verifiers wrap every failure, the library's and their own type check, into one
  \<^verbatim>\<open>Error\<close> with a fixed message.
\<close>

definition verifyAccessToken :: "config \<Rightarrow> token \<Rightarrow> millis \<Rightarrow> exn + jwt_payload" where
  "verifyAccessToken cfg tok now =
     (case jwt_verify tok (JWT_ACCESS_SECRET cfg) now of
        Inl e \<Rightarrow> Inl (Error ''Invalid or expired access token'')
      | Inr decoded \<Rightarrow>
          if type decoded \<noteq> ''access''
          then Inl (Error ''Invalid or expired access token'')
          else Inr decoded)"

definition verifyRefreshToken :: "config \<Rightarrow> token \<Rightarrow> millis \<Rightarrow> exn + jwt_payload" where
  "verifyRefreshToken cfg tok now =
     (case jwt_verify tok (JWT_REFRESH_SECRET cfg) now of
        Inl e \<Rightarrow> Inl (Error ''Invalid or expired refresh token'')
      | Inr decoded \<Rightarrow>
          if type decoded \<noteq> ''refresh''
          then Inl (Error ''Invalid or expired refresh token'')
          else Inr decoded)"

section \<open>Thrown values and responses\<close>

text \<open>\<^verbatim>\<open>String.prototype.startsWith\<close> and \<^verbatim>\<open>String.prototype.includes\<close>.\<close>

fun startsWith :: "string \<Rightarrow> string \<Rightarrow> bool" where
  "startsWith s [] = True"
| "startsWith [] (p # ps) = False"
| "startsWith (c # cs) (p # ps) = (c = p \<and> startsWith cs ps)"

fun str_includes :: "string \<Rightarrow> string \<Rightarrow> bool" where
  "str_includes [] pat = (pat = [])"
| "str_includes (c # cs) pat = (startsWith (c # cs) pat \<or> str_includes cs pat)"

text \<open>
  The errors of the libraries, as the handlers can observe them (by \<^verbatim>\<open>name\<close> and by
  \<^verbatim>\<open>message\<close>). Prisma's \<^verbatim>\<open>delete\<close> rejects with code P2025 when no row matches,
  \<^verbatim>\<open>create\<close> rejects with code P2002 when the unique column already holds the value;
  the messages are abbreviated to their first and last sentence.
\<close>

definition ZodError :: "string \<Rightarrow> exn" where
  "ZodError msg = \<lparr> name = ''ZodError'', message = msg \<rparr>"

definition P2025 :: exn where
  "P2025 = \<lparr> name = ''PrismaClientKnownRequestError'',
     message = ''Invalid prisma.refreshToken.delete() invocation: Record to delete does not exist.'' \<rparr>"

definition P2002 :: exn where
  "P2002 = \<lparr> name = ''PrismaClientKnownRequestError'',
     message = ''Invalid prisma.refreshToken.create() invocation: Unique constraint failed on the fields: (token)'' \<rparr>"

definition P1001 :: exn where
  "P1001 = \<lparr> name = ''PrismaClientInitializationError'',
     message = ''Cannot reach database server'' \<rparr>"

text \<open>
  The users as the handlers see them. \<open>User\<close> extends \<open>UserWithoutPassword\<close> by the
  stored digest. The field names carry a prefix where the source's name (\<^verbatim>\<open>id\<close>,
  \<^verbatim>\<open>name\<close>) is taken in this theory.
\<close>

datatype digest = Bcrypt nat string

record UserWithoutPassword =
  u_id :: string
  email :: string
  u_name :: string
  createdAt :: millis
  updatedAt :: millis

record User = UserWithoutPassword +
  password :: digest

datatype response_body =
    AuthBody UserWithoutPassword token token
  | TokenBody token token
  | MessageBody string
  | ErrorBody string string

record response =
  status :: nat
  body :: response_body

definition json :: "nat \<Rightarrow> response_body \<Rightarrow> response" where
  "json st b = \<lparr> status = st, body = b \<rparr>"

section \<open>Request schemas: \<^verbatim>\<open>backend/src/schemas/authSchemas.ts\<close>\<close>

text \<open>A field of the JSON request body, as a schema of strings sees it.\<close>

datatype 'a field = Absent | NotAString | Str 'a

text \<open>The length test of \<^verbatim>\<open>z.string().min(1)\<close> on a token string.\<close>

fun nonempty :: "token \<Rightarrow> bool" where
  "nonempty (Jwt p k) = True"
| "nonempty (Opaque s) = (s \<noteq> [])"

fun refreshTokenSchema_parse :: "token field \<Rightarrow> exn + token" where
  "refreshTokenSchema_parse Absent = Inl (ZodError ''Required'')"
| "refreshTokenSchema_parse NotAString = Inl (ZodError ''Expected string'')"
| "refreshTokenSchema_parse (Str tok) =
     (if nonempty tok then Inr tok else Inl (ZodError ''Refresh token is required''))"

text \<open>\<^verbatim>\<open>toLowerCase\<close> and \<^verbatim>\<open>trim\<close>, on ASCII.\<close>

definition toLowerCase :: "string \<Rightarrow> string" where
  "toLowerCase s =
     map (\<lambda>c. let n = (of_char c :: nat)
               in if 65 \<le> n \<and> n \<le> 90 then char_of (n + 32) else c) s"

definition is_space :: "char \<Rightarrow> bool" where
  "is_space c = (c = CHR '' '' \<or> c = CHR 0x09 \<or> c = CHR 0x0A \<or> c = CHR 0x0D)"

definition trim :: "string \<Rightarrow> string" where
  "trim s = rev (dropWhile is_space (rev (dropWhile is_space s)))"

record LoginRequest =
  login_email :: string
  login_password :: string

text \<open>
  \<^verbatim>\<open>loginSchema.parse\<close>. The email test is Zod's regular expression, a parameter here.
  Zod reports every failing field; the handler only looks at the error's name.
\<close>

definition loginSchema_parse ::
  "(string \<Rightarrow> bool) \<Rightarrow> string field \<Rightarrow> string field \<Rightarrow> exn + LoginRequest" where
  "loginSchema_parse is_email e p =
     (case e of
        Str es \<Rightarrow>
          (if is_email es then
             (case p of
                Str ps \<Rightarrow>
                  if ps \<noteq> []
                  then Inr \<lparr> login_email = trim (toLowerCase es), login_password = ps \<rparr>
                  else Inl (ZodError ''Password is required'')
              | _ \<Rightarrow> Inl (ZodError ''Required''))
           else Inl (ZodError ''Invalid email format''))
      | _ \<Rightarrow> Inl (ZodError ''Required''))"

section \<open>Refresh token store: \<^verbatim>\<open>backend/src/utils/auth.ts\<close>\<close>

text \<open>
  The table \<^verbatim>\<open>RefreshToken\<close> has a unique column \<^verbatim>\<open>token\<close>: it is a map from the token
  value to the rest of the row. \<open>storeRefreshToken\<close> adds seven calendar days to the
  current date, which is 7 * 24 hours wherever no daylight-saving change falls in
  between. The subject of a stored row is a user that exists.
\<close>

record RefreshToken =
  rt_userId :: string
  expiresAt :: millis

type_synonym refresh_store = "token \<rightharpoonup> RefreshToken"

definition storeRefreshToken ::
  "refresh_store \<Rightarrow> string \<Rightarrow> token \<Rightarrow> millis \<Rightarrow> exn + refresh_store" where
  "storeRefreshToken st uid tok now =
     (case st tok of
        Some row \<Rightarrow> Inl P2002
      | None \<Rightarrow>
          Inr (st(tok \<mapsto> \<lparr> rt_userId = uid,
                            expiresAt = now + 7 * 24 * 60 * 60 * 1000 \<rparr>)))"

definition removeRefreshToken :: "refresh_store \<Rightarrow> token \<Rightarrow> exn + refresh_store" where
  "removeRefreshToken st tok =
     (case st tok of
        None \<Rightarrow> Inl P2025
      | Some row \<Rightarrow> Inr (st(tok := None)))"

definition isRefreshTokenValid ::
  "refresh_store \<Rightarrow> token \<Rightarrow> millis \<Rightarrow> exn + (bool \<times> refresh_store)" where
  "isRefreshTokenValid st tok now =
     (case st tok of
        None \<Rightarrow> Inr (False, st)
      | Some refreshToken \<Rightarrow>
          if expiresAt refreshToken < now
          then (case removeRefreshToken st tok of
                  Inl e \<Rightarrow> Inl e
                | Inr st' \<Rightarrow> Inr (False, st'))
          else Inr (True, st))"

text \<open>
  Whether the database serves a call or the promise of the call rejects (the server
  cannot be reached). Only the housekeeping call is given this choice; every other
  call is served.
\<close>

datatype db_call = Served | Rejected

definition cleanupExpiredTokens ::
  "db_call \<Rightarrow> refresh_store \<Rightarrow> string \<Rightarrow> millis \<Rightarrow> exn + refresh_store" where
  "cleanupExpiredTokens db st uid now =
     (case db of
        Rejected \<Rightarrow> Inl P1001
      | Served \<Rightarrow>
          Inr (\<lambda>tok. case st tok of
                 None \<Rightarrow> None
               | Some row \<Rightarrow>
                   if rt_userId row = uid \<and> expiresAt row < now then None else Some row))"

section \<open>User service\<close>

definition comparePassword :: "string \<Rightarrow> digest \<Rightarrow> bool" where
  "comparePassword pw hashed = (case hashed of Bcrypt salt pw' \<Rightarrow> pw = pw')"

definition findUserByEmail :: "User list \<Rightarrow> string \<Rightarrow> User option" where
  "findUserByEmail users e = find (\<lambda>u. email u = e) users"

definition findUserById :: "User list \<Rightarrow> string \<Rightarrow> UserWithoutPassword option" where
  "findUserById users i =
     map_option UserWithoutPassword.truncate (find (\<lambda>u. u_id u = i) users)"

definition authenticateUser ::
  "User list \<Rightarrow> string \<Rightarrow> string \<Rightarrow> UserWithoutPassword option" where
  "authenticateUser users e pw =
     (case findUserByEmail users e of
        None \<Rightarrow> None
      | Some user \<Rightarrow>
          if \<not> comparePassword pw (password user) then None
          else Some (UserWithoutPassword.truncate user))"

section \<open>Session service: the controllers\<close>

definition VALIDATION_ERROR :: response where
  "VALIDATION_ERROR = json 400 (ErrorBody ''VALIDATION_ERROR'' ''Invalid input data'')"

definition INVALID_REFRESH_TOKEN :: response where
  "INVALID_REFRESH_TOKEN =
     json 401 (ErrorBody ''INVALID_REFRESH_TOKEN'' ''Invalid or expired refresh token'')"

definition INVALID_CREDENTIALS :: response where
  "INVALID_CREDENTIALS =
     json 401 (ErrorBody ''INVALID_CREDENTIALS'' ''Invalid email or password'')"

definition INTERNAL_SERVER_ERROR :: "string \<Rightarrow> response" where
  "INTERNAL_SERVER_ERROR msg = json 500 (ErrorBody ''INTERNAL_SERVER_ERROR'' msg)"

definition logged_out :: response where
  "logged_out = json 200 (MessageBody ''Logged out successfully'')"

text \<open>The \<^verbatim>\<open>catch\<close> blocks of the three handlers.\<close>

definition login_catch :: "exn \<Rightarrow> response" where
  "login_catch error =
     (if name error = ''ZodError'' then VALIDATION_ERROR
      else INTERNAL_SERVER_ERROR ''An unexpected error occurred during login'')"

definition refreshToken_catch :: "exn \<Rightarrow> response" where
  "refreshToken_catch error =
     (if name error = ''ZodError'' then VALIDATION_ERROR
      else if str_includes (message error) ''Invalid or expired'' then INVALID_REFRESH_TOKEN
      else INTERNAL_SERVER_ERROR ''An unexpected error occurred during token refresh'')"

definition logout_catch :: "exn \<Rightarrow> response" where
  "logout_catch error =
     (if name error = ''ZodError'' then VALIDATION_ERROR else logged_out)"

text \<open>
  \<^verbatim>\<open>login\<close>. The housekeeping call is awaited inside the \<^verbatim>\<open>try\<close> block, after the new
  row has been stored.
\<close>

definition login ::
  "config \<Rightarrow> (string \<Rightarrow> bool) \<Rightarrow> db_call \<Rightarrow> User list \<Rightarrow> refresh_store \<Rightarrow>
   string field \<Rightarrow> string field \<Rightarrow> millis \<Rightarrow> response \<times> refresh_store" where
  "login cfg is_email db users st e p now =
     (case loginSchema_parse is_email e p of
        Inl err \<Rightarrow> (login_catch err, st)
      | Inr validatedData \<Rightarrow>
          (case authenticateUser users (login_email validatedData)
                  (login_password validatedData) of
             None \<Rightarrow> (INVALID_CREDENTIALS, st)
           | Some user \<Rightarrow>
               let accessToken = generateAccessToken cfg (u_id user) now;
                   refreshToken = generateRefreshToken cfg (u_id user) now
               in (case storeRefreshToken st (u_id user) refreshToken now of
                     Inl err \<Rightarrow> (login_catch err, st)
                   | Inr st1 \<Rightarrow>
                       (case cleanupExpiredTokens db st1 (u_id user) now of
                          Inl err \<Rightarrow> (login_catch err, st1)
                        | Inr st2 \<Rightarrow>
                            (json 200 (AuthBody user accessToken refreshToken), st2)))))"

text \<open>\<^verbatim>\<open>refreshToken\<close>: verify, check the store, then rotate.\<close>

definition refreshToken ::
  "config \<Rightarrow> refresh_store \<Rightarrow> token field \<Rightarrow> millis \<Rightarrow> response \<times> refresh_store" where
  "refreshToken cfg st b now =
     (case refreshTokenSchema_parse b of
        Inl err \<Rightarrow> (refreshToken_catch err, st)
      | Inr tok \<Rightarrow>
          (case verifyRefreshToken cfg tok now of
             Inl err \<Rightarrow> (refreshToken_catch err, st)
           | Inr decoded \<Rightarrow>
               (case isRefreshTokenValid st tok now of
                  Inl err \<Rightarrow> (refreshToken_catch err, st)
                | Inr (isValid, st1) \<Rightarrow>
                    if \<not> isValid then (INVALID_REFRESH_TOKEN, st1)
                    else
                      let newAccessToken = generateAccessToken cfg (userId decoded) now;
                          newRefreshToken = generateRefreshToken cfg (userId decoded) now
                      in (case removeRefreshToken st1 tok of
                            Inl err \<Rightarrow> (refreshToken_catch err, st1)
                          | Inr st2 \<Rightarrow>
                              (case storeRefreshToken st2 (userId decoded)
                                      newRefreshToken now of
                                 Inl err \<Rightarrow> (refreshToken_catch err, st2)
                               | Inr st3 \<Rightarrow>
                                   (json 200 (TokenBody newAccessToken newRefreshToken),
                                    st3))))))"

text \<open>\<^verbatim>\<open>logout\<close>: a schema failure is answered with 400, any other failure with success.\<close>

definition logout :: "refresh_store \<Rightarrow> token field \<Rightarrow> response \<times> refresh_store" where
  "logout st b =
     (case refreshTokenSchema_parse b of
        Inl err \<Rightarrow> (logout_catch err, st)
      | Inr tok \<Rightarrow>
          (case removeRefreshToken st tok of
             Inl err \<Rightarrow> (logout_catch err, st)
           | Inr st' \<Rightarrow> (logged_out, st')))"

section \<open>Authentication middleware: \<^verbatim>\<open>backend/src/middleware/auth.ts\<close>\<close>

text \<open>
  The \<^verbatim>\<open>Authorization\<close> header: absent, a string that does not start with
  \<^verbatim>\<open>'Bearer '\<close>, or that prefix followed by a token string (which may be empty).
\<close>

datatype authorization = Bearer token | Other string

text \<open>The middleware either hands the request on with the user attached, or answers.\<close>

datatype auth_outcome = Next UserWithoutPassword | Respond response

definition authenticateToken ::
  "config \<Rightarrow> User list \<Rightarrow> authorization option \<Rightarrow> millis \<Rightarrow> auth_outcome" where
  "authenticateToken cfg users authHeader now =
     (let tok = (case authHeader of
                   Some (Bearer t) \<Rightarrow> if nonempty t then Some t else None
                 | _ \<Rightarrow> None)
      in case tok of
           None \<Rightarrow>
             Respond (json 401 (ErrorBody ''MISSING_TOKEN'' ''Access token is required''))
         | Some t \<Rightarrow>
             (case verifyAccessToken cfg t now of
                Inl err \<Rightarrow>
                  Respond (json 401
                    (ErrorBody ''INVALID_TOKEN'' ''Invalid or expired access token''))
              | Inr decoded \<Rightarrow>
                  (case findUserById users (userId decoded) of
                     None \<Rightarrow>
                       Respond (json 401
                         (ErrorBody ''USER_NOT_FOUND''
                            ''User associated with token no longer exists''))
                   | Some user \<Rightarrow> Next user)))"

section \<open>Client session agent: \<^verbatim>\<open>frontend/src/lib/api.ts\<close>\<close>

text \<open>
  The browser's cookie store, by cookie name. \<^verbatim>\<open>js-cookie\<close> writes the expiry as a date
  with whole seconds; the browser no longer returns a cookie once that date has passed.
\<close>

record cookie =
  cookie_value :: token
  cookie_expires :: millis

type_synonym cookie_jar = "string \<rightharpoonup> cookie"

definition Cookies_get :: "cookie_jar \<Rightarrow> string \<Rightarrow> millis \<Rightarrow> token option" where
  "Cookies_get jar n now =
     (case jar n of
        None \<Rightarrow> None
      | Some c \<Rightarrow> if cookie_expires c < now then None else Some (cookie_value c))"

definition Cookies_set ::
  "cookie_jar \<Rightarrow> string \<Rightarrow> token \<Rightarrow> nat \<Rightarrow> millis \<Rightarrow> cookie_jar" where
  "Cookies_set jar n v lifetime now =
     jar(n \<mapsto> \<lparr> cookie_value = v,
                  cookie_expires = ((now + lifetime) div 1000) * 1000 \<rparr>)"

definition Cookies_remove :: "cookie_jar \<Rightarrow> string \<Rightarrow> cookie_jar" where
  "Cookies_remove jar n = jar(n := None)"

text \<open>\<^verbatim>\<open>Cookies.get(...) || null\<close>: the empty string counts as no token.\<close>

definition getAccessToken :: "cookie_jar \<Rightarrow> millis \<Rightarrow> token option" where
  "getAccessToken jar now =
     (case Cookies_get jar ''accessToken'' now of
        None \<Rightarrow> None
      | Some t \<Rightarrow> if nonempty t then Some t else None)"

definition getRefreshToken :: "cookie_jar \<Rightarrow> millis \<Rightarrow> token option" where
  "getRefreshToken jar now =
     (case Cookies_get jar ''refreshToken'' now of
        None \<Rightarrow> None
      | Some t \<Rightarrow> if nonempty t then Some t else None)"

text \<open>Lifetimes: 1/96 of a day (15 minutes) and 7 days, in milliseconds.\<close>

definition setTokens :: "cookie_jar \<Rightarrow> token \<Rightarrow> token \<Rightarrow> millis \<Rightarrow> cookie_jar" where
  "setTokens jar accessToken refreshTok now =
     Cookies_set (Cookies_set jar ''accessToken'' accessToken (15 * 60 * 1000) now)
       ''refreshToken'' refreshTok (7 * 24 * 60 * 60 * 1000) now"

definition clearTokens :: "cookie_jar \<Rightarrow> cookie_jar" where
  "clearTokens jar = Cookies_remove (Cookies_remove jar ''accessToken'') ''refreshToken''"

text \<open>
  An outgoing request, as far as the interceptors touch it: the bearer token of its
  \<^verbatim>\<open>Authorization\<close> header and its \<^verbatim>\<open>_retry\<close> flag.
\<close>

record request_config =
  Authorization :: "token option"
  retry :: bool

definition request_interceptor ::
  "cookie_jar \<Rightarrow> millis \<Rightarrow> request_config \<Rightarrow> request_config" where
  "request_interceptor jar now config =
     (case getAccessToken jar now of
        Some tok \<Rightarrow> config\<lparr> Authorization := Some tok \<rparr>
      | None \<Rightarrow> config)"

text \<open>
  The cookie stores the agent itself produces: it starts without the two cookies, and
  writes them only through \<open>setTokens\<close> (with the tokens of a server response, which
  are signed tokens, never the empty string) and \<open>clearTokens\<close>.
\<close>

inductive reachable :: "cookie_jar \<Rightarrow> bool" where
  initial: "reachable Map.empty"
| stored: "reachable jar \<Longrightarrow> nonempty r \<Longrightarrow> reachable (setTokens jar a r now)"
| cleared: "reachable jar \<Longrightarrow> reachable (clearTokens jar)"

subsection \<open>The single-flight refresh\<close>

text \<open>
  JavaScript runs one task at a time, to completion, together with the promise
  reactions that the task made ready. A step of the model is one such turn of the event
  loop; between two turns the agent's state is the cookie store, the field
  \<^verbatim>\<open>refreshPromise\<close>, and the handlers suspended at an \<^verbatim>\<open>await\<close>.

  A promise is named by a number. A suspended handler is recorded with the request it
  belongs to, the promise it awaits, and whether it is suspended inside the
  \<^verbatim>\<open>try\<close> block of \<^verbatim>\<open>refreshAccessToken\<close> (the call that created the promise; its
  \<^verbatim>\<open>finally\<close> resets the field) or got the promise returned by the early
  \<^verbatim>\<open>return this.refreshPromise\<close>.
\<close>

datatype outcome =
    Retry token      \<comment> \<open>re-issued with the new access token\<close>
  | LoginRedirect    \<comment> \<open>refresh failed: tokens cleared, rejected with the refresh error\<close>
  | Propagated       \<comment> \<open>rejected with the original error, no refresh attempted\<close>

record client =
  jar :: cookie_jar
  refreshPromise :: "nat option"
  promises :: nat
  posts :: nat
  awaiting :: "(nat \<times> nat \<times> bool) list"
  retried :: "nat list"
  outcomes :: "(nat \<times> outcome) list"

text \<open>
  \<^verbatim>\<open>refreshAccessToken\<close> up to its \<^verbatim>\<open>await\<close>, called for request \<open>i\<close>. With the field
  set, the caller gets that promise. Otherwise \<^verbatim>\<open>performTokenRefresh\<close> starts: without a
  refresh token it throws before any request is made, so its promise is born rejected
  and, within the same turn, the \<^verbatim>\<open>finally\<close> resets the field and the interceptor's
  \<^verbatim>\<open>catch\<close> clears the tokens; with a refresh token it posts to
  \<^verbatim>\<open>/api/auth/refresh\<close> and the caller is suspended.
\<close>

definition refreshAccessToken :: "client \<Rightarrow> nat \<Rightarrow> millis \<Rightarrow> client" where
  "refreshAccessToken c i now =
     (case refreshPromise c of
        Some p \<Rightarrow> c\<lparr> awaiting := awaiting c @ [(i, p, False)] \<rparr>
      | None \<Rightarrow>
          (case getRefreshToken (jar c) now of
             None \<Rightarrow>
               c\<lparr> promises := promises c + 1,
                  jar := clearTokens (jar c),
                  outcomes := outcomes c @ [(i, LoginRedirect)] \<rparr>
           | Some r \<Rightarrow>
               c\<lparr> promises := promises c + 1,
                  posts := posts c + 1,
                  refreshPromise := Some (promises c),
                  awaiting := awaiting c @ [(i, promises c, True)] \<rparr>))"

text \<open>The response interceptor's error handler for a 401 on request \<open>i\<close>.\<close>

definition on_unauthorized :: "client \<Rightarrow> nat \<Rightarrow> millis \<Rightarrow> client" where
  "on_unauthorized c i now =
     (if i \<in> set (retried c)
      then c\<lparr> outcomes := outcomes c @ [(i, Propagated)] \<rparr>
      else refreshAccessToken (c\<lparr> retried := i # retried c \<rparr>) i now)"

text \<open>
  The answer to the refresh request in flight arrives: \<open>Some (accessToken, refreshToken)\<close>
  for a 200, \<open>None\<close> for any failure. \<^verbatim>\<open>performTokenRefresh\<close> stores the pair and its
  promise settles; every handler awaiting that promise resumes with its result; the
  handler suspended inside the \<^verbatim>\<open>try\<close> block runs the \<^verbatim>\<open>finally\<close>; on failure each
  resumed interceptor clears the tokens.
\<close>

definition on_refresh_response ::
  "client \<Rightarrow> (token \<times> token) option \<Rightarrow> millis \<Rightarrow> client" where
  "on_refresh_response c res now =
     (case refreshPromise c of
        None \<Rightarrow> c
      | Some p \<Rightarrow>
          let waiters = filter (\<lambda>(i, q, own). q = p) (awaiting c);
              jar1 = (case res of
                        Some (a, r) \<Rightarrow> setTokens (jar c) a r now
                      | None \<Rightarrow> jar c);
              out = (case res of Some (a, r) \<Rightarrow> Retry a | None \<Rightarrow> LoginRedirect);
              jar2 = (case res of
                        Some (a, r) \<Rightarrow> jar1
                      | None \<Rightarrow> if waiters = [] then jar1 else clearTokens jar1)
          in c\<lparr> jar := jar2,
                refreshPromise :=
                  (if list_ex (\<lambda>(i, q, own). own) waiters then None else refreshPromise c),
                awaiting := filter (\<lambda>(i, q, own). q \<noteq> p) (awaiting c),
                outcomes := outcomes c @ map (\<lambda>(i, q, own). (i, out)) waiters \<rparr>)"

datatype event =
    Unauthorized nat millis
  | RefreshResponse "(token \<times> token) option" millis

fun step :: "client \<Rightarrow> event \<Rightarrow> client" where
  "step c (Unauthorized i now) = on_unauthorized c i now"
| "step c (RefreshResponse res now) = on_refresh_response c res now"

definition run :: "client \<Rightarrow> event list \<Rightarrow> client" where
  "run c evs = foldl step c evs"

definition result_of :: "(token \<times> token) option \<Rightarrow> outcome" where
  "result_of res = (case res of Some (a, r) \<Rightarrow> Retry a | None \<Rightarrow> LoginRedirect)"

text \<open>
  A burst of authorization failures: request \<open>i\<close> first, then the requests of \<open>jts\<close>,
  each with the time of its turn.
\<close>

definition burst :: "nat \<Rightarrow> millis \<Rightarrow> (nat \<times> millis) list \<Rightarrow> event list" where
  "burst i t0 jts = Unauthorized i t0 # map (\<lambda>(j, t). Unauthorized j t) jts"

section \<open>Scenarios\<close>

text \<open>Concrete states and inputs for the evaluations below.\<close>

definition empty_store :: refresh_store where
  "empty_store = Map.empty"

definition boundary_store :: refresh_store where
  "boundary_store =
     empty_store(Opaque ''t'' \<mapsto> \<lparr> rt_userId = ''u1'', expiresAt = 1000 \<rparr>)"

definition alice_public :: UserWithoutPassword where
  "alice_public =
     \<lparr> u_id = ''u1'', email = ''alice@example.com'', u_name = ''Alice'',
       createdAt = 0, updatedAt = 0 \<rparr>"

definition alice :: User where
  "alice =
     \<lparr> u_id = ''u1'', email = ''alice@example.com'', u_name = ''Alice'',
       createdAt = 0, updatedAt = 0, password = Bcrypt 7 ''Secret123!'' \<rparr>"

definition has_at :: "string \<Rightarrow> bool" where
  "has_at s = (CHR ''@'' \<in> set s)"

text \<open>
  Alice logs in when the clock reads 5000 ms and is handed the refresh token \<open>T1\<close>; the
  store then holds its row. She refreshes at 5400 ms, within the same second.
\<close>

definition T1 :: token where
  "T1 = generateRefreshToken fallback_config ''u1'' 5000"

definition session_store :: refresh_store where
  "session_store =
     snd (login fallback_config has_at Served [alice] empty_store
            (Str ''alice@example.com'') (Str ''Secret123!'') 5000)"

definition rotated_store :: refresh_store where
  "rotated_store = snd (refreshToken fallback_config session_store (Str T1) 5400)"

definition access_only_jar :: cookie_jar where
  "access_only_jar =
     Cookies_set Map.empty ''accessToken'' (Opaque ''a'') (15 * 60 * 1000) 0"

definition cleared_jar :: cookie_jar where
  "cleared_jar = clearTokens (setTokens Map.empty (Opaque ''a'') (Opaque ''r'') 0)"

definition plain_request :: request_config where
  "plain_request = \<lparr> Authorization = None, retry = False \<rparr>"

text \<open>
  An agent whose access cookie has expired and whose refresh cookie is alive at
  1000000 ms, with nothing in flight.
\<close>

definition agent0 :: client where
  "agent0 =
     \<lparr> jar = setTokens Map.empty (Opaque ''a1'') (Opaque ''r1'') 0,
       refreshPromise = None, promises = 0, posts = 0,
       awaiting = [], retried = [], outcomes = [] \<rparr>"

section \<open>Properties of the token codec\<close>

text \<open>
  C8. For every subject id, every pair of secrets and all issue and check times, a token
  made by \<open>generateAccessToken\<close> is rejected by \<open>verifyRefreshToken\<close>, and a token made
  by \<open>generateRefreshToken\<close> is rejected by \<open>verifyAccessToken\<close>. The type tag decides even
  when both secrets were configured to the same value.
\<close>

theorem token_classes_never_cross:
  "verifyRefreshToken cfg (generateAccessToken cfg uid t0) t
     = Inl (Error ''Invalid or expired refresh token'')
   \<and> verifyAccessToken cfg (generateRefreshToken cfg uid t0) t
     = Inl (Error ''Invalid or expired access token'')"
  by (simp add: verifyRefreshToken_def verifyAccessToken_def generateAccessToken_def
      generateRefreshToken_def jwt_sign_def)

section \<open>Properties of the refresh token store\<close>

text \<open>
  Removing a token that has no row: Prisma's \<^verbatim>\<open>delete\<close> rejects, so the call is an
  error. This contradicts C4 as stated.
\<close>

theorem remove_absent_row_counterexample:
  "removeRefreshToken empty_store (Opaque ''gone'') = Inl P2025"
  by (simp add: removeRefreshToken_def empty_store_def)

text \<open>
  C4, amended. \<open>removeRefreshToken\<close> deletes the row when one exists for the token
  value and leaves every other row as it was; a second removal of the same value, like
  any removal of a value without a row, fails with Prisma's record-not-found error
  P2025.
\<close>

theorem removeRefreshToken_deletes_or_P2025:
  "(\<forall>row. st tok = Some row \<longrightarrow>
      (\<exists>st'. removeRefreshToken st tok = Inr st' \<and> st' tok = None
          \<and> (\<forall>t. t \<noteq> tok \<longrightarrow> st' t = st t)
          \<and> removeRefreshToken st' tok = Inl P2025))
   \<and> (st tok = None \<longrightarrow> removeRefreshToken st tok = Inl P2025)"
  by (simp add: removeRefreshToken_def)

theorem removeRefreshToken_deletes_or_P2025_witness:
  "boundary_store (Opaque ''t'') = Some \<lparr> rt_userId = ''u1'', expiresAt = 1000 \<rparr>
   \<and> removeRefreshToken boundary_store (Opaque ''t'')
       = Inr (boundary_store(Opaque ''t'' := None))
   \<and> removeRefreshToken (boundary_store(Opaque ''t'' := None)) (Opaque ''t'') = Inl P2025
   \<and> empty_store (Opaque ''gone'') = None
   \<and> removeRefreshToken empty_store (Opaque ''gone'') = Inl P2025"
proof -
  have present: "boundary_store (Opaque ''t'') = Some \<lparr> rt_userId = ''u1'', expiresAt = 1000 \<rparr>"
    by (simp add: boundary_store_def)
  have absent: "empty_store (Opaque ''gone'') = None"
    by (simp add: empty_store_def)
  have step: "removeRefreshToken boundary_store (Opaque ''t'')
       = Inr (boundary_store(Opaque ''t'' := None))"
    using present by (simp add: removeRefreshToken_def)
  show ?thesis
    using present absent step
      removeRefreshToken_deletes_or_P2025 [of boundary_store "Opaque ''t''"]
      removeRefreshToken_deletes_or_P2025 [of empty_store "Opaque ''gone''"]
    by auto
qed

text \<open>
  A row whose \<open>expiresAt\<close> equals the current instant: \<open>isRefreshTokenValid\<close> answers
  true and keeps the row. This contradicts C5 as stated.
\<close>

theorem isValid_boundary_counterexample:
  "isRefreshTokenValid boundary_store (Opaque ''t'') 1000 = Inr (True, boundary_store)"
  by (simp add: isRefreshTokenValid_def boundary_store_def)

text \<open>
  C5, amended. \<open>isRefreshTokenValid\<close> returns false when no row exists for the token
  value; when a row exists with \<open>expiresAt < now\<close> it deletes that row and returns false;
  in every other case (a row with \<open>expiresAt \<ge> now\<close>) it returns true and leaves the
  store unchanged. A row whose \<open>expiresAt\<close> equals the current instant is still valid.
  The call never fails.
\<close>

theorem isRefreshTokenValid_strict_expiry:
  "(st tok = None \<longrightarrow> isRefreshTokenValid st tok now = Inr (False, st))
   \<and> (\<forall>row. st tok = Some row \<and> expiresAt row < now \<longrightarrow>
         isRefreshTokenValid st tok now = Inr (False, st(tok := None)))
   \<and> (\<forall>row. st tok = Some row \<and> now \<le> expiresAt row \<longrightarrow>
         isRefreshTokenValid st tok now = Inr (True, st))"
  by (simp add: isRefreshTokenValid_def removeRefreshToken_def)

theorem isRefreshTokenValid_strict_expiry_witness:
  "empty_store (Opaque ''t'') = None
   \<and> isRefreshTokenValid empty_store (Opaque ''t'') 1000 = Inr (False, empty_store)
   \<and> boundary_store (Opaque ''t'') = Some \<lparr> rt_userId = ''u1'', expiresAt = 1000 \<rparr>
   \<and> isRefreshTokenValid boundary_store (Opaque ''t'') 1001
       = Inr (False, boundary_store(Opaque ''t'' := None))
   \<and> isRefreshTokenValid boundary_store (Opaque ''t'') 999 = Inr (True, boundary_store)"
proof -
  have present: "boundary_store (Opaque ''t'') = Some \<lparr> rt_userId = ''u1'', expiresAt = 1000 \<rparr>"
    by (simp add: boundary_store_def)
  have absent: "empty_store (Opaque ''t'') = None"
    by (simp add: empty_store_def)
  show ?thesis
    using present absent
      isRefreshTokenValid_strict_expiry [of empty_store "Opaque ''t''" 1000]
      isRefreshTokenValid_strict_expiry [of boundary_store "Opaque ''t''" 1001]
      isRefreshTokenValid_strict_expiry [of boundary_store "Opaque ''t''" 999]
    by simp
qed

section \<open>Properties of the session service\<close>

subsection \<open>Shared facts\<close>

lemma catch_verify_error:
  "refreshToken_catch (Error ''Invalid or expired refresh token'') = INVALID_REFRESH_TOKEN"
  by (simp add: refreshToken_catch_def Error_def)

lemma verifyRefreshToken_cases:
  "verifyRefreshToken cfg tok now = Inl (Error ''Invalid or expired refresh token'')
   \<or> (\<exists>d. verifyRefreshToken cfg tok now = Inr d)"
  by (auto simp: verifyRefreshToken_def split: sum.splits)

lemma verified_nonempty:
  "verifyRefreshToken cfg tok now = Inr d \<Longrightarrow> nonempty tok"
  by (cases tok) (auto simp: verifyRefreshToken_def)

text \<open>Without a row for the token, a refresh is answered with 401 whatever the token is.\<close>

lemma refresh_absent_row:
  assumes "refreshTokenSchema_parse b = Inr tok" and "st tok = None"
  shows "refreshToken cfg st b now = (INVALID_REFRESH_TOKEN, st)"
  using assms verifyRefreshToken_cases [of cfg tok now]
  by (auto simp: refreshToken_def isRefreshTokenValid_def catch_verify_error)

lemma truncate_alice: "UserWithoutPassword.truncate alice = alice_public"
  by (simp add: alice_def alice_public_def UserWithoutPassword.truncate_def)

lemma authenticate_alice:
  "authenticateUser [alice] ''alice@example.com'' ''Secret123!'' = Some alice_public"
  by (simp add: authenticateUser_def findUserByEmail_def comparePassword_def
      truncate_alice [symmetric]) (simp add: alice_def)

lemma parse_alice:
  "loginSchema_parse has_at (Str ''alice@example.com'') (Str ''Secret123!'')
     = Inr \<lparr> login_email = ''alice@example.com'', login_password = ''Secret123!'' \<rparr>"
  by (simp add: loginSchema_parse_def has_at_def toLowerCase_def trim_def is_space_def)

lemma T1_nonempty: "nonempty T1"
  by (simp add: T1_def generateRefreshToken_def jwt_sign_def)

lemma T1_again: "generateRefreshToken fallback_config ''u1'' 5400 = T1"
  by (simp add: T1_def generateRefreshToken_def jwt_sign_def jwt_clock_def)

lemma T1_verify:
  "verifyRefreshToken fallback_config T1 5400
     = Inr \<lparr> userId = ''u1'', type = ''refresh'', iat = 5, exp = 604805 \<rparr>"
  by (simp add: T1_def generateRefreshToken_def jwt_sign_def jwt_clock_def
      verifyRefreshToken_def fallback_config_def)

lemma alice_id: "u_id alice_public = ''u1''"
  by (simp add: alice_public_def)

lemma login_alice:
  "login fallback_config has_at Served [alice] empty_store
     (Str ''alice@example.com'') (Str ''Secret123!'') 5000
   = (json 200 (AuthBody alice_public (generateAccessToken fallback_config ''u1'' 5000) T1),
      empty_store(T1 \<mapsto> \<lparr> rt_userId = ''u1'', expiresAt = 604805000 \<rparr>))"
  by (simp add: login_def parse_alice authenticate_alice alice_id T1_def [symmetric]
      storeRefreshToken_def cleanupExpiredTokens_def empty_store_def fun_eq_iff)

lemma session_store_eq:
  "session_store = empty_store(T1 \<mapsto> \<lparr> rt_userId = ''u1'', expiresAt = 604805000 \<rparr>)"
  by (simp add: session_store_def login_alice)

lemma refresh_5400:
  "refreshToken fallback_config session_store (Str T1) 5400
   = (json 200 (TokenBody (generateAccessToken fallback_config ''u1'' 5400) T1),
      empty_store(T1 \<mapsto> \<lparr> rt_userId = ''u1'', expiresAt = 604805400 \<rparr>))"
  by (simp add: refreshToken_def T1_nonempty T1_verify session_store_eq
      isRefreshTokenValid_def removeRefreshToken_def storeRefreshToken_def T1_again
      empty_store_def)

lemma rotated_store_eq:
  "rotated_store = empty_store(T1 \<mapsto> \<lparr> rt_userId = ''u1'', expiresAt = 604805400 \<rparr>)"
  by (simp add: rotated_store_def refresh_5400)

lemma refresh_again:
  "refreshToken fallback_config rotated_store (Str T1) 5400
   = (json 200 (TokenBody (generateAccessToken fallback_config ''u1'' 5400) T1),
      rotated_store)"
  by (simp add: refreshToken_def T1_nonempty T1_verify rotated_store_eq
      isRefreshTokenValid_def removeRefreshToken_def storeRefreshToken_def T1_again
      empty_store_def)

lemma still_valid:
  "isRefreshTokenValid rotated_store T1 5400 = Inr (True, rotated_store)"
  by (simp add: rotated_store_eq isRefreshTokenValid_def)

subsection \<open>Rotation\<close>

text \<open>
  Rotation consumes the old token whenever the token generated in its place is a
  different value that has no row yet: the refresh succeeds, the old value is no longer
  valid, and refreshing with it again is answered with 401.
\<close>

lemma refresh_rotates:
  assumes v: "verifyRefreshToken cfg T now = Inr d"
    and row: "st T = Some row" and live: "now \<le> expiresAt row"
    and fresh: "generateRefreshToken cfg (userId d) now \<noteq> T"
    and free: "st (generateRefreshToken cfg (userId d) now) = None"
  shows "\<exists>st'. refreshToken cfg st (Str T) now
           = (json 200 (TokenBody (generateAccessToken cfg (userId d) now)
                (generateRefreshToken cfg (userId d) now)), st')
         \<and> isRefreshTokenValid st' T now' = Inr (False, st')
         \<and> refreshToken cfg st' (Str T) now' = (INVALID_REFRESH_TOKEN, st')"
proof -
  let ?new = "generateRefreshToken cfg (userId d) now"
  let ?st' = "(st(T := None))(?new \<mapsto>
                \<lparr> rt_userId = userId d, expiresAt = now + 7 * 24 * 60 * 60 * 1000 \<rparr>)"
  from v have ne: "nonempty T" by (rule verified_nonempty)
  have r: "refreshToken cfg st (Str T) now
           = (json 200 (TokenBody (generateAccessToken cfg (userId d) now) ?new), ?st')"
    using v row live fresh free ne
    by (simp add: refreshToken_def isRefreshTokenValid_def removeRefreshToken_def
        storeRefreshToken_def Let_def)
  have gone: "?st' T = None" using fresh by simp
  have p: "refreshTokenSchema_parse (Str T) = Inr T" using ne by simp
  have "isRefreshTokenValid ?st' T now' = Inr (False, ?st')"
    using gone by (simp add: isRefreshTokenValid_def)
  moreover have "refreshToken cfg ?st' (Str T) now' = (INVALID_REFRESH_TOKEN, ?st')"
    using p gone by (rule refresh_absent_row)
  ultimately show ?thesis using r by blast
qed

text \<open>
  C1. The claim fails on the code when the refresh is served in the clock second in
  which the token was issued. \<open>generateRefreshToken\<close> has no input but the subject and
  the clock's second, so the token it makes for the rotation is the old value \<open>T1\<close>
  again: the row is deleted and stored anew, the answer hands \<open>T1\<close> back, \<open>T1\<close> is
  still valid afterwards, and a second refresh with it succeeds as well.
\<close>

theorem refresh_same_second_keeps_token:
  "fst (refreshToken fallback_config session_store (Str T1) 5400)
     = json 200 (TokenBody (generateAccessToken fallback_config ''u1'' 5400) T1)
   \<and> isRefreshTokenValid rotated_store T1 5400 = Inr (True, rotated_store)
   \<and> fst (refreshToken fallback_config rotated_store (Str T1) 5400)
     = json 200 (TokenBody (generateAccessToken fallback_config ''u1'' 5400) T1)"
  by (simp only: refresh_5400 refresh_again still_valid fst_conv simp_thms)

subsection \<open>Logout\<close>

text \<open>
  A body whose \<^verbatim>\<open>refreshToken\<close> is the empty string fails the schema, and \<open>logout\<close>
  answers 400. This contradicts C3 as stated.
\<close>

theorem logout_schema_failure_counterexample:
  "fst (logout empty_store (Str (Opaque []))) = VALIDATION_ERROR
   \<and> status VALIDATION_ERROR = 400"
  by (simp add: logout_def logout_catch_def ZodError_def VALIDATION_ERROR_def json_def)

text \<open>
  C3, amended. For every input that passes the schema (a non-empty string: valid,
  expired, malformed or already consumed), in every store, \<open>logout\<close> answers with
  success, and a refresh with the same input afterwards, at any time, is answered with
  401 \<open>INVALID_REFRESH_TOKEN\<close>. For an input that fails the schema, \<open>logout\<close> answers
  400 \<open>VALIDATION_ERROR\<close> and leaves the store as it was.
\<close>

theorem logout_then_refresh_invalid:
  "(\<forall>tok. refreshTokenSchema_parse b = Inr tok \<longrightarrow>
      (\<exists>st'. logout st b = (logged_out, st')
         \<and> refreshToken cfg st' b now = (INVALID_REFRESH_TOKEN, st')))
   \<and> (\<forall>e. refreshTokenSchema_parse b = Inl e \<longrightarrow> logout st b = (VALIDATION_ERROR, st))"
proof (intro conjI allI impI)
  fix tok assume p: "refreshTokenSchema_parse b = Inr tok"
  show "\<exists>st'. logout st b = (logged_out, st')
         \<and> refreshToken cfg st' b now = (INVALID_REFRESH_TOKEN, st')"
  proof (cases "st tok")
    case None
    then have "logout st b = (logged_out, st)"
      using p by (simp add: logout_def removeRefreshToken_def logout_catch_def P2025_def)
    with refresh_absent_row [where st = st, OF p None] show ?thesis by simp
  next
    case (Some row)
    then have l: "logout st b = (logged_out, st(tok := None))"
      using p by (simp add: logout_def removeRefreshToken_def)
    have "(st(tok := None)) tok = None" by simp
    from refresh_absent_row [where st = "st(tok := None)", OF p this] l
    show ?thesis by simp
  qed
next
  fix e assume p: "refreshTokenSchema_parse b = Inl e"
  then have "name e = ''ZodError''"
    by (cases b) (auto simp: ZodError_def split: if_splits)
  with p show "logout st b = (VALIDATION_ERROR, st)"
    by (simp add: logout_def logout_catch_def)
qed

theorem logout_then_refresh_invalid_witness:
  "refreshTokenSchema_parse (Str T1) = Inr T1
   \<and> fst (logout session_store (Str T1)) = logged_out
   \<and> fst (refreshToken fallback_config (snd (logout session_store (Str T1))) (Str T1) 6000)
       = INVALID_REFRESH_TOKEN
   \<and> refreshTokenSchema_parse (Absent :: token field) = Inl (ZodError ''Required'')
   \<and> logout session_store Absent = (VALIDATION_ERROR, session_store)"
proof -
  have p: "refreshTokenSchema_parse (Str T1) = Inr T1"
    by (simp add: T1_nonempty)
  have q: "refreshTokenSchema_parse (Absent :: token field) = Inl (ZodError ''Required'')"
    by simp
  show ?thesis
    using p q
      logout_then_refresh_invalid [of "Str T1" session_store fallback_config 6000]
      logout_then_refresh_invalid [of Absent session_store fallback_config 6000]
    by auto
qed

subsection \<open>Housekeeping during login\<close>

text \<open>
  Alice logs in with the right password while the housekeeping call is rejected by the
  database: the answer is 500, not the success payload. This contradicts C6 as stated.
\<close>

theorem login_housekeeping_failure_counterexample:
  "fst (login fallback_config has_at Rejected [alice] empty_store
          (Str ''alice@example.com'') (Str ''Secret123!'') 5000)
     = INTERNAL_SERVER_ERROR ''An unexpected error occurred during login''
   \<and> status (INTERNAL_SERVER_ERROR ''An unexpected error occurred during login'') = 500"
  by (simp add: login_def parse_alice authenticate_alice storeRefreshToken_def
      empty_store_def cleanupExpiredTokens_def login_catch_def P1001_def
      INTERNAL_SERVER_ERROR_def json_def)

text \<open>
  C6, amended. \<open>login\<close> awaits the housekeeping call inside its \<^verbatim>\<open>try\<close> block. For
  every login that passes the schema, authenticates and stores its refresh token: when
  the housekeeping call fails, the answer is 500 \<open>INTERNAL_SERVER_ERROR\<close> and the newly
  stored row stays; when it succeeds, the answer is the success payload with the user
  and the token pair. (The refresh handler makes no housekeeping call.)
\<close>

theorem login_awaits_housekeeping:
  assumes "loginSchema_parse is_email e p = Inr v"
    and "authenticateUser users (login_email v) (login_password v) = Some user"
    and "storeRefreshToken st (u_id user) (generateRefreshToken cfg (u_id user) now) now
           = Inr st1"
  shows "login cfg is_email Rejected users st e p now
           = (INTERNAL_SERVER_ERROR ''An unexpected error occurred during login'', st1)
       \<and> (\<exists>st2. login cfg is_email Served users st e p now
           = (json 200 (AuthBody user (generateAccessToken cfg (u_id user) now)
                (generateRefreshToken cfg (u_id user) now)), st2))"
  using assms
  by (simp add: login_def cleanupExpiredTokens_def login_catch_def P1001_def Let_def)

theorem login_awaits_housekeeping_witness:
  "loginSchema_parse has_at (Str ''alice@example.com'') (Str ''Secret123!'')
     = Inr \<lparr> login_email = ''alice@example.com'', login_password = ''Secret123!'' \<rparr>
   \<and> authenticateUser [alice] ''alice@example.com'' ''Secret123!'' = Some alice_public
   \<and> storeRefreshToken empty_store ''u1'' T1 5000
       = Inr (empty_store(T1 \<mapsto> \<lparr> rt_userId = ''u1'', expiresAt = 604805000 \<rparr>))
   \<and> login fallback_config has_at Rejected [alice] empty_store
        (Str ''alice@example.com'') (Str ''Secret123!'') 5000
       = (INTERNAL_SERVER_ERROR ''An unexpected error occurred during login'',
          empty_store(T1 \<mapsto> \<lparr> rt_userId = ''u1'', expiresAt = 604805000 \<rparr>))
   \<and> fst (login fallback_config has_at Served [alice] empty_store
        (Str ''alice@example.com'') (Str ''Secret123!'') 5000)
       = json 200 (AuthBody alice_public (generateAccessToken fallback_config ''u1'' 5000) T1)"
proof -
  let ?v = "\<lparr> login_email = ''alice@example.com'', login_password = ''Secret123!'' \<rparr>"
  let ?st1 = "empty_store(T1 \<mapsto> \<lparr> rt_userId = ''u1'', expiresAt = 604805000 \<rparr>)"
  have a: "authenticateUser [alice] (login_email ?v) (login_password ?v) = Some alice_public"
    by (simp add: authenticate_alice)
  have s: "storeRefreshToken empty_store (u_id alice_public)
             (generateRefreshToken fallback_config (u_id alice_public) 5000) 5000 = Inr ?st1"
    by (simp add: alice_id T1_def [symmetric] storeRefreshToken_def empty_store_def)
  show ?thesis
    using parse_alice authenticate_alice s
      login_awaits_housekeeping [OF parse_alice a s]
    by (auto simp: alice_id T1_def [symmetric])
qed

section \<open>Properties of the authentication middleware\<close>

text \<open>
  C9. Let an access token be issued for a subject that the user store holds, when the
  codec's clock (whole seconds, the clock of both \<^verbatim>\<open>jwt.sign\<close> and \<^verbatim>\<open>jwt.verify\<close>)
  reads \<open>T0\<close>. \<open>authenticateToken\<close> accepts it at every check whose clock reading is
  strictly below \<open>T0\<close> plus 15 minutes, and rejects it with 401 \<open>INVALID_TOKEN\<close> at every
  reading from \<open>T0\<close> plus 15 minutes on; no tolerance is granted.
\<close>

theorem access_token_expiry_boundary:
  assumes "findUserById users uid = Some user"
  shows "authenticateToken cfg users (Some (Bearer (generateAccessToken cfg uid t0))) t
     = (if jwt_clock t < jwt_clock t0 + 15 * 60 then Next user
        else Respond (json 401
               (ErrorBody ''INVALID_TOKEN'' ''Invalid or expired access token'')))"
  using assms
  by (simp add: authenticateToken_def generateAccessToken_def jwt_sign_def
      verifyAccessToken_def)

theorem access_token_expiry_boundary_witness:
  "findUserById [alice] ''u1'' = Some alice_public
   \<and> authenticateToken fallback_config [alice]
        (Some (Bearer (generateAccessToken fallback_config ''u1'' 5000))) 904999
       = Next alice_public
   \<and> authenticateToken fallback_config [alice]
        (Some (Bearer (generateAccessToken fallback_config ''u1'' 5000))) 905000
       = Respond (json 401
               (ErrorBody ''INVALID_TOKEN'' ''Invalid or expired access token''))"
proof -
  have f: "findUserById [alice] ''u1'' = Some alice_public"
    by (simp add: findUserById_def truncate_alice [symmetric]) (simp add: alice_def)
  show ?thesis
    using f
      access_token_expiry_boundary [OF f, of fallback_config 5000 904999]
      access_token_expiry_boundary [OF f, of fallback_config 5000 905000]
    by (simp add: jwt_clock_def)
qed

text \<open>
  C10. \<open>authenticateToken\<close> is not a check of the token alone: for every access token
  that verifies (well signed, of class access, unexpired) whose subject is not in the
  user store, it answers 401 with the code \<open>USER_NOT_FOUND\<close>.
\<close>

theorem authenticate_deleted_subject:
  assumes "verifyAccessToken cfg tok now = Inr decoded"
    and "findUserById users (userId decoded) = None"
  shows "authenticateToken cfg users (Some (Bearer tok)) now
     = Respond (json 401 (ErrorBody ''USER_NOT_FOUND''
                            ''User associated with token no longer exists''))"
proof -
  from assms(1) have "nonempty tok"
    by (cases tok) (auto simp: verifyAccessToken_def)
  with assms show ?thesis by (simp add: authenticateToken_def)
qed

theorem authenticate_deleted_subject_witness:
  "verifyAccessToken fallback_config (generateAccessToken fallback_config ''u1'' 5000) 6000
     = Inr \<lparr> userId = ''u1'', type = ''access'', iat = 5, exp = 905 \<rparr>
   \<and> findUserById [] ''u1'' = None
   \<and> authenticateToken fallback_config []
        (Some (Bearer (generateAccessToken fallback_config ''u1'' 5000))) 6000
       = Respond (json 401 (ErrorBody ''USER_NOT_FOUND''
                              ''User associated with token no longer exists''))"
proof -
  let ?d = "\<lparr> userId = ''u1'', type = ''access'', iat = 5, exp = 905 \<rparr>"
  have v: "verifyAccessToken fallback_config
             (generateAccessToken fallback_config ''u1'' 5000) 6000 = Inr ?d"
    by (simp add: verifyAccessToken_def generateAccessToken_def jwt_sign_def jwt_clock_def)
  have n: "findUserById [] (userId ?d) = None"
    by (simp add: findUserById_def)
  show ?thesis
    using v n authenticate_deleted_subject [OF v n] by simp
qed

section \<open>Properties of the client session agent\<close>

subsection \<open>The token pair in the cookie store\<close>

text \<open>
  A cookie store that holds the access cookie alone: the agent reads no refresh token,
  and the request interceptor still attaches the access token. This contradicts C7 as
  stated.
\<close>

theorem access_without_refresh_counterexample:
  "getRefreshToken access_only_jar 1 = None
   \<and> Authorization (request_interceptor access_only_jar 1 plain_request)
       = Some (Opaque ''a'')"
  by (simp add: getRefreshToken_def access_only_jar_def Cookies_get_def Cookies_set_def
      request_interceptor_def getAccessToken_def plain_request_def)

text \<open>
  In a store the agent produced, an access cookie is accompanied by a refresh cookie
  that holds a non-empty token and expires no earlier.
\<close>

lemma reachable_pair:
  "reachable cj \<Longrightarrow> cj ''accessToken'' = Some ca \<Longrightarrow>
     \<exists>cr. cj ''refreshToken'' = Some cr \<and> cookie_expires ca \<le> cookie_expires cr
          \<and> nonempty (cookie_value cr)"
proof (induction arbitrary: ca rule: reachable.induct)
  case initial
  then show ?case by simp
next
  case (stored cj r a now)
  have "(now + 15 * 60 * 1000) div 1000 \<le> (now + 7 * 24 * 60 * 60 * 1000) div 1000"
    by (rule div_le_mono) simp
  with stored.prems stored.hyps(2) show ?case
    by (auto simp: setTokens_def Cookies_set_def)
next
  case (cleared cj)
  then show ?case by (simp add: clearTokens_def Cookies_remove_def)
qed

text \<open>
  C7, amended. In every cookie store that the agent's own operations produce
  (\<open>setTokens\<close> with the tokens of a server response, \<open>clearTokens\<close>, and the expiry of
  the cookies), at every time: when no refresh token is stored, no access token is
  read either, and the request interceptor leaves the outgoing request without an
  access token. The agent itself never checks the refresh token before it attaches the
  access token.
\<close>

theorem reachable_no_access_without_refresh:
  assumes "reachable cj" and "getRefreshToken cj now = None"
  shows "getAccessToken cj now = None \<and> request_interceptor cj now config = config"
proof -
  have "getAccessToken cj now = None"
  proof (cases "cj ''accessToken''")
    case None
    then show ?thesis by (simp add: getAccessToken_def Cookies_get_def)
  next
    case (Some ca)
    from reachable_pair [OF assms(1) Some] obtain cr where
      cr: "cj ''refreshToken'' = Some cr" "cookie_expires ca \<le> cookie_expires cr"
          "nonempty (cookie_value cr)" by blast
    with assms(2) have "cookie_expires cr < now"
      by (simp add: getRefreshToken_def Cookies_get_def split: if_splits)
    with cr(2) Some show ?thesis by (simp add: getAccessToken_def Cookies_get_def)
  qed
  then show ?thesis by (simp add: request_interceptor_def)
qed

theorem reachable_no_access_without_refresh_witness:
  "reachable cleared_jar \<and> getRefreshToken cleared_jar 5 = None
   \<and> getAccessToken cleared_jar 5 = None
   \<and> request_interceptor cleared_jar 5 plain_request = plain_request"
proof -
  have r: "reachable cleared_jar"
    unfolding cleared_jar_def by (intro reachable.intros) simp
  have n: "getRefreshToken cleared_jar 5 = None"
    by (simp add: cleared_jar_def clearTokens_def Cookies_remove_def getRefreshToken_def
        Cookies_get_def)
  show ?thesis
    using r n reachable_no_access_without_refresh [OF r n, of plain_request] by simp
qed

subsection \<open>Single flight\<close>

lemma run_Nil: "run c [] = c"
  by (simp add: run_def)

lemma run_Cons: "run c (e # es) = run (step c e) es"
  by (simp add: run_def)

lemma run_append: "run c (es @ fs) = run (run c es) fs"
  by (simp add: run_def)

text \<open>
  While the field is set, each further request that is refused for the first time joins
  the promise in flight: it is suspended on it, and nothing else changes.
\<close>

lemma run_joiners:
  "refreshPromise c = Some p \<Longrightarrow> distinct (map fst jts) \<Longrightarrow>
   set (map fst jts) \<inter> set (retried c) = {} \<Longrightarrow>
   run c (map (\<lambda>(j, t). Unauthorized j t) jts)
     = c\<lparr> retried := rev (map fst jts) @ retried c,
          awaiting := awaiting c @ map (\<lambda>(j, t). (j, p, False)) jts \<rparr>"
proof (induction jts arbitrary: c)
  case Nil
  then show ?case by (simp add: run_Nil)
next
  case (Cons jt jts)
  obtain j t where jt: "jt = (j, t)" by (cases jt)
  let ?c1 = "c\<lparr> retried := j # retried c, awaiting := awaiting c @ [(j, p, False)] \<rparr>"
  have s: "step c (Unauthorized j t) = ?c1"
    using Cons.prems jt by (simp add: on_unauthorized_def refreshAccessToken_def)
  have "run ?c1 (map (\<lambda>(j, t). Unauthorized j t) jts)
     = ?c1\<lparr> retried := rev (map fst jts) @ retried ?c1,
          awaiting := awaiting ?c1 @ map (\<lambda>(j, t). (j, p, False)) jts \<rparr>"
    using Cons.prems jt by (intro Cons.IH) auto
  then show ?case using s jt by (simp add: run_Cons)
qed

text \<open>The state after a burst that starts from an agent with nothing in flight.\<close>

lemma run_burst:
  assumes idle: "refreshPromise c = None" "awaiting c = []"
    and tok: "getRefreshToken (jar c) t0 = Some r0"
    and d: "distinct (i # map fst jts)"
    and fresh: "set (i # map fst jts) \<inter> set (retried c) = {}"
  shows "run c (burst i t0 jts)
     = c\<lparr> retried := rev (map fst jts) @ i # retried c,
          promises := promises c + 1, posts := posts c + 1,
          refreshPromise := Some (promises c),
          awaiting := (i, promises c, True) # map (\<lambda>(j, t). (j, promises c, False)) jts \<rparr>"
proof -
  let ?p = "promises c"
  let ?c1 = "c\<lparr> retried := i # retried c, promises := promises c + 1,
                posts := posts c + 1, refreshPromise := Some ?p,
                awaiting := [(i, ?p, True)] \<rparr>"
  have s1: "step c (Unauthorized i t0) = ?c1"
    using idle tok fresh by (simp add: on_unauthorized_def refreshAccessToken_def)
  have "run ?c1 (map (\<lambda>(j, t). Unauthorized j t) jts)
     = ?c1\<lparr> retried := rev (map fst jts) @ retried ?c1,
          awaiting := awaiting ?c1 @ map (\<lambda>(j, t). (j, ?p, False)) jts \<rparr>"
    using d fresh by (intro run_joiners) auto
  then show ?thesis using s1 by (simp add: burst_def run_Cons)
qed

text \<open>
  C2. Let the agent have nothing in flight and a refresh token stored, and let \<open>N\<close>
  distinct requests (\<open>i\<close> and those of \<open>jts\<close>), none retried before, be refused with
  401 in any order of turns before the answer to the refresh arrives. Then exactly one
  refresh request is posted, by the first of them, and the field is set while it is in
  flight. When the answer arrives, success or failure, every one of the \<open>N\<close> handlers
  resumes with the result of that one request, no further request has been posted,
  the field \<^verbatim>\<open>refreshPromise\<close> is reset, and no handler is left suspended.
\<close>

theorem single_flight_refresh:
  assumes "refreshPromise c = None" and "awaiting c = []"
    and "getRefreshToken (jar c) t0 = Some r0"
    and "distinct (i # map fst jts)"
    and "set (i # map fst jts) \<inter> set (retried c) = {}"
  shows "posts (run c (burst i t0 jts)) = posts c + 1
    \<and> refreshPromise (run c (burst i t0 jts)) \<noteq> None
    \<and> posts (run c (burst i t0 jts @ [RefreshResponse res t1])) = posts c + 1
    \<and> outcomes (run c (burst i t0 jts @ [RefreshResponse res t1]))
        = outcomes c @ map (\<lambda>k. (k, result_of res)) (i # map fst jts)
    \<and> refreshPromise (run c (burst i t0 jts @ [RefreshResponse res t1])) = None
    \<and> awaiting (run c (burst i t0 jts @ [RefreshResponse res t1])) = []"
proof -
  let ?p = "promises c"
  have f: "filter (\<lambda>(i, q, own). q = ?p) (map (\<lambda>(j, t). (j, ?p, False)) jts)
           = map (\<lambda>(j, t). (j, ?p, False)) jts"
    by (induction jts) auto
  have g: "filter (\<lambda>(i, q, own). q \<noteq> ?p) (map (\<lambda>(j, t). (j, ?p, False)) jts) = []"
    by (induction jts) auto
  have m: "map ((\<lambda>(i, q, own). (i, result_of res)) \<circ> (\<lambda>(j, t). (j, ?p, False))) jts
           = map ((\<lambda>k. (k, result_of res)) \<circ> fst) jts"
    by (induction jts) auto
  have r: "run c (burst i t0 jts @ [RefreshResponse res t1])
     = on_refresh_response (run c (burst i t0 jts)) res t1"
    by (simp add: run_append run_Cons run_Nil)
  show ?thesis
    unfolding r run_burst [OF assms]
    by (cases res) (auto simp: on_refresh_response_def f g m result_of_def Let_def)
qed

theorem single_flight_refresh_witness:
  "refreshPromise agent0 = None \<and> awaiting agent0 = []
   \<and> getRefreshToken (jar agent0) 1000000 = Some (Opaque ''r1'')
   \<and> posts (run agent0 (burst 1 1000000 [(2, 1000001), (3, 1000002), (4, 1000003), (5, 1000004)]
        @ [RefreshResponse (Some (Opaque ''a2'', Opaque ''r2'')) 1000200])) = 1
   \<and> outcomes (run agent0 (burst 1 1000000 [(2, 1000001), (3, 1000002), (4, 1000003), (5, 1000004)]
        @ [RefreshResponse (Some (Opaque ''a2'', Opaque ''r2'')) 1000200]))
       = [(1, Retry (Opaque ''a2'')), (2, Retry (Opaque ''a2'')), (3, Retry (Opaque ''a2'')),
          (4, Retry (Opaque ''a2'')), (5, Retry (Opaque ''a2''))]
   \<and> refreshPromise (run agent0 (burst 1 1000000 [(2, 1000001), (3, 1000002), (4, 1000003), (5, 1000004)]
        @ [RefreshResponse (Some (Opaque ''a2'', Opaque ''r2'')) 1000200])) = None"
proof -
  have a: "refreshPromise agent0 = None" and b: "awaiting agent0 = []"
    by (simp_all add: agent0_def)
  have t: "getRefreshToken (jar agent0) 1000000 = Some (Opaque ''r1'')"
    by (simp add: agent0_def getRefreshToken_def Cookies_get_def setTokens_def
        Cookies_set_def)
  have d: "distinct ((1::nat) # map fst [(2, 1000001), (3, 1000002), (4, 1000003),
             (5, 1000004 :: nat)])"
    by simp
  have e: "set ((1::nat) # map fst [(2, 1000001), (3, 1000002), (4, 1000003),
             (5, 1000004 :: nat)]) \<inter> set (retried agent0) = {}"
    by (simp add: agent0_def)
  show ?thesis
    using a b t
      single_flight_refresh [OF a b t d e,
        of "Some (Opaque ''a2'', Opaque ''r2'')" 1000200]
    by (simp add: result_of_def) (simp add: agent0_def)
qed

end
